theory Spec2Isabelle
  imports Main
begin

section \<open>Values of the host language\<close>

text \<open>
  The module \<^verbatim>\<open>src/safe.ts\<close> invokes a caller-supplied callback inside a
  \<^verbatim>\<open>try\<close> block and turns what happens into a two-slot array
  \<^verbatim>\<open>[error, result]\<close>. A call of a JavaScript function either returns a value or
  throws one; a promise is eventually fulfilled with a value, rejected with a value, or
  stays pending for ever.
\<close>

datatype ('a, 'e) completion = Return 'a | Throw 'e

datatype 'a settlement = Fulfilled 'a | Rejected 'a | Pending

text \<open>
  Objects are created with \<^verbatim>\<open>new\<close>, which takes a reference nobody holds yet. The only
  piece of host state the module touches is therefore the allocator, modelled as the next
  unused reference; every computation takes it and returns it updated.
\<close>

type_synonym alloc = nat

text \<open>
  JavaScript values, as far as the module can tell them apart:
  \<^item> the primitives; numbers are the integers and \<^verbatim>\<open>NaN\<close> (fractions and infinities
    behave like non-zero integers in every test the module makes);
  \<^item> \<open>Arr\<close>: an array literal, which has no \<^verbatim>\<open>then\<close> property;
  \<^item> \<open>Obj r c ps\<close>: the object at reference \<open>r\<close>, whose prototype is that of class
    \<open>c\<close>, with the properties \<open>ps\<close> (own or inherited, data properties only);
  \<^item> \<open>Fn b\<close>: a user function stored in a property, called as a method of the object
    that holds it. The only arguments it ever receives from the module or from the host are
    the module's two arrow functions and \<^verbatim>\<open>undefined\<close>; \<open>b\<close> takes the argument
    list (\<open>None\<close> for \<^verbatim>\<open>undefined\<close>) and the allocator state of the call, and
    returns or throws;
  \<^item> \<open>Closure a\<close>: one of the module's arrow functions, as a value that user code was
    handed and may return or store;
  \<^item> \<open>Builtin m\<close>: the method \<open>m\<close> of the host's promise prototype, which user code
    may store in objects of its own;
  \<^item> \<open>Promise st\<close>: a host promise. \<open>st t\<close> is the settlement its reactions observe when
    they run from allocator state \<open>t\<close>, with the allocator state they leave.
\<close>

text \<open>
  The arrow functions the module passes on: \<^verbatim>\<open>(value) => [null, value]\<close>, given to
  \<^verbatim>\<open>then\<close>, and \<^verbatim>\<open>(error) => { if (error === null) return [new NullError(),
  null]; return [error, null]; }\<close>, given to \<^verbatim>\<open>catch\<close>. The source writes each
  of them once in \<^verbatim>\<open>w\<close> and once in \<^verbatim>\<open>x\<close>, with the same text.
\<close>

datatype arrow = ValueArrow | FaultArrow

datatype host_method = PromiseThen | PromiseCatch

datatype val =
    Null
  | Undefined
  | Bool bool
  | Num int
  | NaN
  | Str string
  | Arr "val list"
  | Obj nat string "(string \<times> val) list"
  | Fn "arrow option list \<Rightarrow> alloc \<Rightarrow> (val, val) completion \<times> alloc"
  | Closure arrow
  | Builtin host_method
  | Promise "alloc \<Rightarrow> val settlement \<times> alloc"

type_synonym outcome = "(val, val) completion \<times> alloc"

type_synonym callback = "val list \<Rightarrow> alloc \<Rightarrow> outcome"

type_synonym handler = "val \<Rightarrow> alloc \<Rightarrow> outcome"

text \<open>The conversion to boolean that \<^verbatim>\<open>&&\<close> applies to its left operand.\<close>

fun truthy :: "val \<Rightarrow> bool" where
  "truthy Null = False"
| "truthy Undefined = False"
| "truthy (Bool b) = b"
| "truthy (Num n) = (n \<noteq> 0)"
| "truthy NaN = False"
| "truthy (Str s) = (s \<noteq> [])"
| "truthy (Arr vs) = True"
| "truthy (Obj r c ps) = True"
| "truthy (Fn b) = True"
| "truthy (Closure a) = True"
| "truthy (Builtin m) = True"
| "truthy (Promise st) = True"

fun typeof :: "val \<Rightarrow> string" where
  "typeof Null = ''object''"
| "typeof Undefined = ''undefined''"
| "typeof (Bool b) = ''boolean''"
| "typeof (Num n) = ''number''"
| "typeof NaN = ''number''"
| "typeof (Str s) = ''string''"
| "typeof (Arr vs) = ''object''"
| "typeof (Obj r c ps) = ''object''"
| "typeof (Fn b) = ''function''"
| "typeof (Closure a) = ''function''"
| "typeof (Builtin m) = ''function''"
| "typeof (Promise st) = ''object''"

text \<open>
  Reading the property \<^verbatim>\<open>then\<close> or \<^verbatim>\<open>catch\<close> of a value other than
  \<^verbatim>\<open>null\<close> and \<^verbatim>\<open>undefined\<close> (on those two the read throws, see
  \<open>call_method\<close>). Primitives, arrays and functions inherit neither from their prototypes,
  and functions are given no properties of their own.
\<close>

fun get_prop :: "val \<Rightarrow> string \<Rightarrow> val" where
  "get_prop (Obj r c ps) k = (case map_of ps k of Some p \<Rightarrow> p | None \<Rightarrow> Undefined)"
| "get_prop (Promise st) k =
     (if k = ''then'' then Builtin PromiseThen
      else if k = ''catch'' then Builtin PromiseCatch
      else Undefined)"
| "get_prop v k = Undefined"

section \<open>The classes the module creates\<close>

text \<open>
  \<^verbatim>\<open>class NullError extends Error { constructor() { super('null');
  this.name = 'NullError'; Object.setPrototypeOf(this, NullError.prototype); } }\<close>
  The argument is the reference \<^verbatim>\<open>new\<close> hands out.
\<close>

definition NullError_new :: "alloc \<Rightarrow> val" where
  "NullError_new r = Obj r ''NullError'' [(''message'', Str ''null''), (''name'', Str ''NullError'')]"

text \<open>
  The \<^verbatim>\<open>TypeError\<close> the host throws when a method is called on
  \<^verbatim>\<open>null\<close> or \<^verbatim>\<open>undefined\<close>, or when the property called is not a
  function. Its message differs between hosts and is left out.
\<close>

definition TypeError_new :: "alloc \<Rightarrow> val" where
  "TypeError_new r = Obj r ''TypeError'' [(''name'', Str ''TypeError'')]"

text \<open>
  The \<^verbatim>\<open>RangeError\<close> with which the host (V8) gives up a call chain that never
  ends.
\<close>

definition RangeError_new :: "alloc \<Rightarrow> val" where
  "RangeError_new r = Obj r ''RangeError'' [(''name'', Str ''RangeError'')]"

definition instanceof :: "val \<Rightarrow> string \<Rightarrow> bool" where
  "instanceof v c = (case v of Obj r c' ps \<Rightarrow> c' = c | _ \<Rightarrow> False)"

section \<open>The arrow functions of the module\<close>

text \<open>
  The bodies of the two arrow functions: \<open>value_tuple\<close> is
  \<^verbatim>\<open>(value) => [null, value]\<close> (safe.ts, lines 53 and 113), \<open>fault_tuple\<close> is
  \<^verbatim>\<open>(error) => { if (error === null) return [new NullError(), null];
  return [error, null]; }\<close> (lines 54 to 57 and 114 to 117). The host runs them when a
  promise settles, and user code runs them when it calls what it was handed.
\<close>

definition value_tuple :: handler where
  "value_tuple v t = (Return (Arr [Null, v]), t)"

definition fault_tuple :: handler where
  "fault_tuple e t =
     (case e of
        Null \<Rightarrow> (Return (Arr [NullError_new t, Null]), Suc t)
      | _ \<Rightarrow> (Return (Arr [e, Null]), t))"

fun apply_arrow :: "arrow \<Rightarrow> handler" where
  "apply_arrow ValueArrow = value_tuple"
| "apply_arrow FaultArrow = fault_tuple"

section \<open>Promises and calls of the host\<close>

text \<open>
  What a promise does with the value a reaction returns: it adopts another host promise and
  is fulfilled with anything else. (A reaction returning an object with a \<^verbatim>\<open>then\<close>
  of its own would be followed too; the reactions of this module return arrays.)
\<close>

definition resolve_with :: "val \<Rightarrow> alloc \<Rightarrow> val settlement \<times> alloc" where
  "resolve_with r t = (case r of Promise st \<Rightarrow> st t | _ \<Rightarrow> (Fulfilled r, t))"

definition run_reaction :: "handler \<Rightarrow> val \<Rightarrow> alloc \<Rightarrow> val settlement \<times> alloc" where
  "run_reaction h v t =
     (case h v t of
        (Return r, t') \<Rightarrow> resolve_with r t'
      | (Throw e, t') \<Rightarrow> (Rejected e, t'))"

text \<open>
  \<^verbatim>\<open>p.then(onFulfilled, onRejected)\<close> on a host promise: each handler reacts to its
  kind of settlement, and a settlement whose handler is missing passes through.
\<close>

definition promise_then ::
  "(alloc \<Rightarrow> val settlement \<times> alloc) \<Rightarrow> handler option \<Rightarrow> handler option \<Rightarrow>
   alloc \<Rightarrow> val settlement \<times> alloc" where
  "promise_then st on_fulfilled on_rejected t =
     (case st t of
        (Fulfilled v, t') \<Rightarrow>
          (case on_fulfilled of Some h \<Rightarrow> run_reaction h v t' | None \<Rightarrow> (Fulfilled v, t'))
      | (Rejected e, t') \<Rightarrow>
          (case on_rejected of Some h \<Rightarrow> run_reaction h e t' | None \<Rightarrow> (Rejected e, t'))
      | (Pending, t') \<Rightarrow> (Pending, t'))"

text \<open>\<^verbatim>\<open>p.catch(onRejected)\<close> on a host promise is \<^verbatim>\<open>p.then(undefined, onRejected)\<close>.\<close>

definition promise_catch ::
  "(alloc \<Rightarrow> val settlement \<times> alloc) \<Rightarrow> handler option \<Rightarrow> alloc \<Rightarrow> val settlement \<times> alloc" where
  "promise_catch st on_rejected = promise_then st None on_rejected"

text \<open>The \<open>i\<close>-th argument of a call; a missing one reads as \<^verbatim>\<open>undefined\<close>.\<close>

definition arg :: "nat \<Rightarrow> arrow option list \<Rightarrow> arrow option" where
  "arg i args = (if i < length args then args ! i else None)"

definition arg_val :: "arrow option \<Rightarrow> val" where
  "arg_val a = (case a of Some f \<Rightarrow> Closure f | None \<Rightarrow> Undefined)"

text \<open>
  \<^verbatim>\<open>Promise.prototype.then\<close> called on \<open>this\<close>: it insists on a host promise and
  throws a \<^verbatim>\<open>TypeError\<close> on any other receiver.
\<close>

definition host_then :: "val \<Rightarrow> arrow option list \<Rightarrow> alloc \<Rightarrow> outcome" where
  "host_then this args s =
     (case this of
        Promise st \<Rightarrow>
          (Return (Promise (promise_then st (map_option apply_arrow (arg 0 args))
                                            (map_option apply_arrow (arg 1 args)))), s)
      | _ \<Rightarrow> (Throw (TypeError_new s), Suc s))"

text \<open>
  \<^verbatim>\<open>Promise.prototype.catch\<close> called on \<open>this\<close> is generic: whatever the
  receiver, it calls \<^verbatim>\<open>this.then(undefined, onRejected)\<close> and returns what that
  returns. \<open>invoke_then\<close> is that call. When the receiver's \<^verbatim>\<open>then\<close> is this same
  \<^verbatim>\<open>catch\<close>, the calls never end and the host throws a \<^verbatim>\<open>RangeError\<close>.
\<close>

definition invoke_then :: "val \<Rightarrow> arrow option list \<Rightarrow> alloc \<Rightarrow> outcome" where
  "invoke_then this args s =
     (case get_prop this ''then'' of
        Fn body \<Rightarrow> body args s
      | Closure a \<Rightarrow> apply_arrow a (arg_val (arg 0 args)) s
      | Builtin PromiseThen \<Rightarrow> host_then this args s
      | Builtin PromiseCatch \<Rightarrow> (Throw (RangeError_new s), Suc s)
      | _ \<Rightarrow> (Throw (TypeError_new s), Suc s))"

text \<open>
  The method call \<^verbatim>\<open>recv.name(...args)\<close>. On \<^verbatim>\<open>null\<close> and
  \<^verbatim>\<open>undefined\<close> the property read throws; a property that is not a function
  cannot be called; a user function receives the arguments; an arrow function of the module
  is applied to the first of them.
\<close>

definition call_method :: "val \<Rightarrow> string \<Rightarrow> arrow option list \<Rightarrow> alloc \<Rightarrow> outcome" where
  "call_method recv name args s =
     (case recv of
        Null \<Rightarrow> (Throw (TypeError_new s), Suc s)
      | Undefined \<Rightarrow> (Throw (TypeError_new s), Suc s)
      | _ \<Rightarrow>
         (case get_prop recv name of
            Fn body \<Rightarrow> body args s
          | Closure a \<Rightarrow> apply_arrow a (arg_val (arg 0 args)) s
          | Builtin PromiseThen \<Rightarrow> host_then recv args s
          | Builtin PromiseCatch \<Rightarrow> invoke_then recv [None, arg 0 args] s
          | _ \<Rightarrow> (Throw (TypeError_new s), Suc s)))"

section \<open>The module\<close>

text \<open>\<^verbatim>\<open>try { body } catch (error) { handler }\<close>\<close>

definition try_catch :: "(alloc \<Rightarrow> outcome) \<Rightarrow> handler \<Rightarrow> alloc \<Rightarrow> outcome" where
  "try_catch body h s =
     (case body s of
        (Return v, s') \<Rightarrow> (Return v, s')
      | (Throw e, s') \<Rightarrow> h e s')"

text \<open>
  \<^verbatim>\<open>export function x(callback, ...params)\<close>, statement for statement: the call of
  the callback, the test \<^verbatim>\<open>result && typeof result.then === 'function'\<close>, the chain
  \<^verbatim>\<open>result.then(...).catch(...)\<close> with its two arrow functions (passed by name,
  their bodies are \<open>value_tuple\<close> and \<open>fault_tuple\<close> above), the synchronous
  \<^verbatim>\<open>return [null, result]\<close>, and the \<^verbatim>\<open>catch\<close> block.
\<close>

definition x :: "callback \<Rightarrow> val list \<Rightarrow> alloc \<Rightarrow> outcome" where
  "x callback params =
     try_catch
       (\<lambda>s. case callback params s of
              (Throw thrown, s1) \<Rightarrow> (Throw thrown, s1)
            | (Return result, s1) \<Rightarrow>
                if truthy result \<and> typeof (get_prop result ''then'') = ''function'' then
                  (case call_method result ''then'' [Some ValueArrow] s1 of
                     (Throw thrown, s2) \<Rightarrow> (Throw thrown, s2)
                   | (Return chained, s2) \<Rightarrow>
                       call_method chained ''catch'' [Some FaultArrow] s2)
                else (Return (Arr [Null, result]), s1))
       (\<lambda>error s. case error of
            Null \<Rightarrow> (Return (Arr [NullError_new s, Null]), Suc s)
          | _ \<Rightarrow> (Return (Arr [error, Null]), s))"

text \<open>
  \<^verbatim>\<open>export function w(callback)\<close> returns the arrow function
  \<^verbatim>\<open>(...params) => { try { ... } catch (error) { ... } }\<close>, whose body is written
  out in the source a second time.
\<close>

definition w :: "callback \<Rightarrow> callback" where
  "w callback =
     (\<lambda>params.
        try_catch
          (\<lambda>s. case callback params s of
                 (Throw thrown, s1) \<Rightarrow> (Throw thrown, s1)
               | (Return result, s1) \<Rightarrow>
                   if truthy result \<and> typeof (get_prop result ''then'') = ''function'' then
                     (case call_method result ''then'' [Some ValueArrow] s1 of
                        (Throw thrown, s2) \<Rightarrow> (Throw thrown, s2)
                      | (Return chained, s2) \<Rightarrow>
                          call_method chained ''catch'' [Some FaultArrow] s2)
                   else (Return (Arr [Null, result]), s1))
          (\<lambda>error s. case error of
               Null \<Rightarrow> (Return (Arr [NullError_new s, Null]), Suc s)
             | _ \<Rightarrow> (Return (Arr [error, Null]), s)))"

section \<open>Vocabulary of the properties\<close>

text \<open>
  The promise \<^verbatim>\<open>p.then(...).catch(...)\<close> that the module returns for a host
  promise \<open>p\<close> with settlement \<open>st\<close>.
\<close>

definition chain_of :: "(alloc \<Rightarrow> val settlement \<times> alloc) \<Rightarrow> alloc \<Rightarrow> val settlement \<times> alloc" where
  "chain_of st = promise_catch (promise_then st (Some value_tuple) None) (Some fault_tuple)"

text \<open>
  The expression \<^verbatim>\<open>result.then(...).catch(...)\<close> on any value: the second call is
  made on what the first returns, unless the first raises.
\<close>

definition then_catch :: "val \<Rightarrow> alloc \<Rightarrow> outcome" where
  "then_catch result s =
     (case call_method result ''then'' [Some ValueArrow] s of
        (Throw thrown, s') \<Rightarrow> (Throw thrown, s')
      | (Return next, s') \<Rightarrow> call_method next ''catch'' [Some FaultArrow] s')"

text \<open>The test \<^verbatim>\<open>result && typeof result.then === 'function'\<close>.\<close>

definition detected_pending :: "val \<Rightarrow> bool" where
  "detected_pending v = (truthy v \<and> typeof (get_prop v ''then'') = ''function'')"

definition ref_of :: "val \<Rightarrow> nat option" where
  "ref_of v = (case v of Obj r c ps \<Rightarrow> Some r | _ \<Rightarrow> None)"

section \<open>Callbacks used as examples\<close>

text \<open>\<^verbatim>\<open>() => 5\<close> and \<^verbatim>\<open>async () => 5\<close>\<close>

definition sync_five :: callback where
  "sync_five params s = (Return (Num 5), s)"

definition fulfilled_five :: "alloc \<Rightarrow> val settlement \<times> alloc" where
  "fulfilled_five t = (Fulfilled (Num 5), t)"

definition async_five :: callback where
  "async_five params s = (Return (Promise fulfilled_five), s)"

text \<open>\<^verbatim>\<open>() => null\<close>, \<^verbatim>\<open>() => 0\<close> and \<^verbatim>\<open>() => ({ then: 1 })\<close>\<close>

definition return_null :: callback where
  "return_null params s = (Return Null, s)"

definition return_zero :: callback where
  "return_zero params s = (Return (Num 0), s)"

definition return_then_one :: callback where
  "return_then_one params s = (Return (Obj s ''Object'' [(''then'', Num 1)]), Suc s)"

text \<open>
  \<^verbatim>\<open>() => { throw null }\<close>, \<^verbatim>\<open>() => { throw undefined }\<close> and
  \<^verbatim>\<open>() => { throw new Error('boom') }\<close>
\<close>

definition throw_null :: callback where
  "throw_null params s = (Throw Null, s)"

definition throw_undefined :: callback where
  "throw_undefined params s = (Throw Undefined, s)"

definition boom :: "alloc \<Rightarrow> val" where
  "boom r = Obj r ''Error'' [(''message'', Str ''boom''), (''name'', Str ''Error'')]"

definition throw_boom :: callback where
  "throw_boom params s = (Throw (boom s), Suc s)"

text \<open>
  \<^verbatim>\<open>async () => { throw null }\<close>, \<^verbatim>\<open>async () => { throw undefined }\<close>
  and \<^verbatim>\<open>() => Promise.reject(boom)\<close> for the error at reference 0
\<close>

definition rejected_null :: "alloc \<Rightarrow> val settlement \<times> alloc" where
  "rejected_null t = (Rejected Null, t)"

definition async_throw_null :: callback where
  "async_throw_null params s = (Return (Promise rejected_null), s)"

definition rejected_undefined :: "alloc \<Rightarrow> val settlement \<times> alloc" where
  "rejected_undefined t = (Rejected Undefined, t)"

definition async_throw_undefined :: callback where
  "async_throw_undefined params s = (Return (Promise rejected_undefined), s)"

definition rejected_boom :: "alloc \<Rightarrow> val settlement \<times> alloc" where
  "rejected_boom t = (Rejected (boom 0), t)"

definition async_boom :: callback where
  "async_boom params s = (Return (Promise rejected_boom), s)"

text \<open>
  A thenable of the caller's own:
  \<^verbatim>\<open>() => ({ then() { return { catch() { return Promise.reject(1) } } } })\<close>
\<close>

definition rejected_one :: "alloc \<Rightarrow> val settlement \<times> alloc" where
  "rejected_one t = (Rejected (Num 1), t)"

definition rogue_catch :: "arrow option list \<Rightarrow> alloc \<Rightarrow> outcome" where
  "rogue_catch args t = (Return (Promise rejected_one), t)"

definition rogue_then :: "arrow option list \<Rightarrow> alloc \<Rightarrow> outcome" where
  "rogue_then args t = (Return (Obj t ''Object'' [(''catch'', Fn rogue_catch)]), Suc t)"

definition rogue :: callback where
  "rogue params s = (Return (Obj s ''Object'' [(''then'', Fn rogue_then)]), Suc s)"

text \<open>
  The smallest thenable \<^verbatim>\<open>await\<close> accepts, whose \<^verbatim>\<open>then\<close> returns
  nothing: \<^verbatim>\<open>() => ({ then(resolve) { resolve(1) } })\<close>
\<close>

definition bare_then :: "arrow option list \<Rightarrow> alloc \<Rightarrow> outcome" where
  "bare_then args t =
     (case arg 0 args of
        None \<Rightarrow> (Throw (TypeError_new t), Suc t)
      | Some resolve \<Rightarrow>
          (case apply_arrow resolve (Num 1) t of
             (Return ignored, t') \<Rightarrow> (Return Undefined, t')
           | (Throw thrown, t') \<Rightarrow> (Throw thrown, t')))"

definition bare_thenable :: callback where
  "bare_thenable params s = (Return (Obj s ''Object'' [(''then'', Fn bare_then)]), Suc s)"

text \<open>A thenable whose \<^verbatim>\<open>then\<close> raises: \<^verbatim>\<open>() => ({ then() { throw null } })\<close>\<close>

definition throwing_then :: "arrow option list \<Rightarrow> alloc \<Rightarrow> outcome" where
  "throwing_then args t = (Throw Null, t)"

definition throwing_thenable :: callback where
  "throwing_thenable params s = (Return (Obj s ''Object'' [(''then'', Fn throwing_then)]), Suc s)"

text \<open>
  Objects that borrow the host's methods: \<^verbatim>\<open>() => ({ then: Promise.prototype.then })\<close>
  and \<^verbatim>\<open>() => ({ then: Promise.prototype.catch })\<close>
\<close>

definition borrowed_then :: callback where
  "borrowed_then params s = (Return (Obj s ''Object'' [(''then'', Builtin PromiseThen)]), Suc s)"

definition borrowed_catch :: callback where
  "borrowed_catch params s = (Return (Obj s ''Object'' [(''then'', Builtin PromiseCatch)]), Suc s)"

text \<open>
  A thenable whose \<^verbatim>\<open>then\<close> returns an object that has the host's
  \<^verbatim>\<open>catch\<close> and a \<^verbatim>\<open>then\<close> of its own:
  \<^verbatim>\<open>() => ({ then() { return { catch: Promise.prototype.catch,
  then(a, b) { return b ? 7 : 8 } } } })\<close>
\<close>

definition seven_or_eight :: "arrow option list \<Rightarrow> alloc \<Rightarrow> outcome" where
  "seven_or_eight args t =
     (case arg 1 args of Some b \<Rightarrow> (Return (Num 7), t) | None \<Rightarrow> (Return (Num 8), t))"

definition outer_then :: "arrow option list \<Rightarrow> alloc \<Rightarrow> outcome" where
  "outer_then args t =
     (Return (Obj t ''Object'' [(''catch'', Builtin PromiseCatch), (''then'', Fn seven_or_eight)]),
      Suc t)"

definition seven :: callback where
  "seven params s = (Return (Obj s ''Object'' [(''then'', Fn outer_then)]), Suc s)"

text \<open>A promise thrown, not returned: \<^verbatim>\<open>() => { throw Promise.resolve(5) }\<close>\<close>

definition throw_promise :: callback where
  "throw_promise params s = (Throw (Promise fulfilled_five), s)"

section \<open>How the module behaves, case by case\<close>

text \<open>
  The bodies of \<open>x\<close> and \<open>w\<close> in the vocabulary above, and what they give on each
  behaviour of the callback. The properties below are proved from these.
\<close>

lemma catch_block_eq:
  "(\<lambda>error s. case error of
        Null \<Rightarrow> (Return (Arr [NullError_new s, Null]), Suc s)
      | _ \<Rightarrow> (Return (Arr [error, Null]), s)) = fault_tuple"
  by (rule ext)+ (simp add: fault_tuple_def)

lemma fault_tuple_null: "fault_tuple Null t = (Return (Arr [NullError_new t, Null]), Suc t)"
  by (simp add: fault_tuple_def)

lemma fault_tuple_other: "e \<noteq> Null \<Longrightarrow> fault_tuple e t = (Return (Arr [e, Null]), t)"
  by (cases e) (simp_all add: fault_tuple_def)

lemma fault_tuple_returns: "\<exists>f t'. fault_tuple e t = (Return (Arr [f, Null]), t') \<and> f \<noteq> Null"
  by (cases e) (simp_all add: fault_tuple_def NullError_new_def)

lemma try_catch_fault_tuple_returns: "\<exists>v s'. try_catch body fault_tuple s = (Return v, s')"
proof (cases "body s")
  case (Pair c s1)
  show ?thesis
  proof (cases c)
    case (Return v)
    with Pair show ?thesis by (simp add: try_catch_def)
  next
    case (Throw e)
    obtain f t' where "fault_tuple e s1 = (Return (Arr [f, Null]), t')"
      using fault_tuple_returns by blast
    with Pair Throw show ?thesis by (simp add: try_catch_def)
  qed
qed

lemma x_alt:
  "x callback params =
     try_catch
       (\<lambda>s. case callback params s of
              (Throw thrown, s1) \<Rightarrow> (Throw thrown, s1)
            | (Return result, s1) \<Rightarrow>
                if detected_pending result then then_catch result s1
                else (Return (Arr [Null, result]), s1))
       fault_tuple"
  unfolding x_def catch_block_eq detected_pending_def then_catch_def ..

lemma w_alt:
  "w callback params =
     try_catch
       (\<lambda>s. case callback params s of
              (Throw thrown, s1) \<Rightarrow> (Throw thrown, s1)
            | (Return result, s1) \<Rightarrow>
                if detected_pending result then then_catch result s1
                else (Return (Arr [Null, result]), s1))
       fault_tuple"
  unfolding w_def catch_block_eq detected_pending_def then_catch_def ..

lemma x_returns: "\<exists>v s'. x callback params s = (Return v, s')"
  unfolding x_alt by (rule try_catch_fault_tuple_returns)

lemma w_returns: "\<exists>v s'. w callback params s = (Return v, s')"
  unfolding w_alt by (rule try_catch_fault_tuple_returns)

lemma x_throw: "callback params s = (Throw e, s1) \<Longrightarrow> x callback params s = fault_tuple e s1"
  by (simp add: x_alt try_catch_def)

lemma w_throw: "callback params s = (Throw e, s1) \<Longrightarrow> w callback params s = fault_tuple e s1"
  by (simp add: w_alt try_catch_def)

lemma x_plain:
  "callback params s = (Return v, s1) \<Longrightarrow> \<not> detected_pending v \<Longrightarrow>
   x callback params s = (Return (Arr [Null, v]), s1)"
  by (simp add: x_alt try_catch_def)

lemma w_plain:
  "callback params s = (Return v, s1) \<Longrightarrow> \<not> detected_pending v \<Longrightarrow>
   w callback params s = (Return (Arr [Null, v]), s1)"
  by (simp add: w_alt try_catch_def)

lemma x_selected:
  "callback params s = (Return v, s1) \<Longrightarrow> detected_pending v \<Longrightarrow>
   x callback params s = try_catch (then_catch v) fault_tuple s1"
  by (simp add: x_alt try_catch_def)

lemma w_selected:
  "callback params s = (Return v, s1) \<Longrightarrow> detected_pending v \<Longrightarrow>
   w callback params s = try_catch (then_catch v) fault_tuple s1"
  by (simp add: w_alt try_catch_def)

lemma detected_pending_Promise: "detected_pending (Promise st)"
  by (simp add: detected_pending_def)

lemma not_detected_Arr: "\<not> detected_pending (Arr vs)"
  by (simp add: detected_pending_def)

lemma then_catch_Promise: "then_catch (Promise st) s = (Return (Promise (chain_of st)), s)"
  by (simp add: then_catch_def call_method_def host_then_def invoke_then_def arg_def
      chain_of_def promise_catch_def)

lemma x_promise:
  "callback params s = (Return (Promise st), s1) \<Longrightarrow>
   x callback params s = (Return (Promise (chain_of st)), s1)"
  by (simp add: x_selected detected_pending_Promise then_catch_Promise try_catch_def)

lemma w_promise:
  "callback params s = (Return (Promise st), s1) \<Longrightarrow>
   w callback params s = (Return (Promise (chain_of st)), s1)"
  by (simp add: w_selected detected_pending_Promise then_catch_Promise try_catch_def)

lemma chained_fulfilled:
  "st t = (Fulfilled v, t1) \<Longrightarrow> chain_of st t = (Fulfilled (Arr [Null, v]), t1)"
  by (simp add: chain_of_def promise_catch_def promise_then_def run_reaction_def
      resolve_with_def value_tuple_def)

lemma chained_rejected:
  "st t = (Rejected e, t1) \<Longrightarrow>
   chain_of st t = (case fault_tuple e t1 of (Return r, t2) \<Rightarrow> (Fulfilled r, t2) | (Throw e', t2) \<Rightarrow> (Rejected e', t2))"
  by (cases e) (simp_all add: chain_of_def promise_catch_def promise_then_def run_reaction_def
      resolve_with_def fault_tuple_def)

lemma chained_rejected_null:
  "st t = (Rejected Null, t1) \<Longrightarrow> chain_of st t = (Fulfilled (Arr [NullError_new t1, Null]), Suc t1)"
  by (simp add: chained_rejected fault_tuple_def)

lemma chained_rejected_other:
  "st t = (Rejected e, t1) \<Longrightarrow> e \<noteq> Null \<Longrightarrow> chain_of st t = (Fulfilled (Arr [e, Null]), t1)"
  by (simp add: chained_rejected fault_tuple_other)

lemma chained_pending:
  "st t = (Pending, t1) \<Longrightarrow> chain_of st t = (Pending, t1)"
  by (simp add: chain_of_def promise_catch_def promise_then_def)

lemma detected_pending_method:
  "map_of ps ''then'' = Some f \<Longrightarrow> typeof f = ''function'' \<Longrightarrow> detected_pending (Obj a c ps)"
  by (simp add: detected_pending_def)

lemma then_catch_user_throws:
  "map_of ps ''then'' = Some (Fn body) \<Longrightarrow> body [Some ValueArrow] s1 = (Throw e, s2) \<Longrightarrow>
   then_catch (Obj a c ps) s1 = (Throw e, s2)"
  by (simp add: then_catch_def call_method_def)

lemma then_catch_user_returns:
  "map_of ps ''then'' = Some (Fn body) \<Longrightarrow> body [Some ValueArrow] s1 = (Return n, s2) \<Longrightarrow>
   then_catch (Obj a c ps) s1 = call_method n ''catch'' [Some FaultArrow] s2"
  by (simp add: then_catch_def call_method_def)

lemma then_catch_borrowed_then:
  "map_of ps ''then'' = Some (Builtin PromiseThen) \<Longrightarrow>
   then_catch (Obj a c ps) s1 = (Throw (TypeError_new s1), Suc s1)"
  by (simp add: then_catch_def call_method_def host_then_def)

lemma then_catch_borrowed_catch:
  "map_of ps ''then'' = Some (Builtin PromiseCatch) \<Longrightarrow>
   then_catch (Obj a c ps) s1 = (Throw (RangeError_new s1), Suc s1)"
  by (simp add: then_catch_def call_method_def invoke_then_def)

lemma x_thenable_throws:
  "callback params s = (Return (Obj a c ps), s1) \<Longrightarrow> map_of ps ''then'' = Some (Fn body) \<Longrightarrow>
   body [Some ValueArrow] s1 = (Throw e, s2) \<Longrightarrow> x callback params s = fault_tuple e s2"
  by (simp add: x_selected detected_pending_method then_catch_user_throws try_catch_def)

lemma w_thenable_throws:
  "callback params s = (Return (Obj a c ps), s1) \<Longrightarrow> map_of ps ''then'' = Some (Fn body) \<Longrightarrow>
   body [Some ValueArrow] s1 = (Throw e, s2) \<Longrightarrow> w callback params s = fault_tuple e s2"
  by (simp add: w_selected detected_pending_method then_catch_user_throws try_catch_def)

lemma x_thenable_returns:
  "callback params s = (Return (Obj a c ps), s1) \<Longrightarrow> map_of ps ''then'' = Some (Fn body) \<Longrightarrow>
   body [Some ValueArrow] s1 = (Return n, s2) \<Longrightarrow>
   x callback params s = try_catch (call_method n ''catch'' [Some FaultArrow]) fault_tuple s2"
  by (simp add: x_selected detected_pending_method then_catch_user_returns try_catch_def)

lemma w_thenable_returns:
  "callback params s = (Return (Obj a c ps), s1) \<Longrightarrow> map_of ps ''then'' = Some (Fn body) \<Longrightarrow>
   body [Some ValueArrow] s1 = (Return n, s2) \<Longrightarrow>
   w callback params s = try_catch (call_method n ''catch'' [Some FaultArrow]) fault_tuple s2"
  by (simp add: w_selected detected_pending_method then_catch_user_returns try_catch_def)

lemma x_borrowed_then:
  "callback params s = (Return (Obj a c ps), s1) \<Longrightarrow>
   map_of ps ''then'' = Some (Builtin PromiseThen) \<Longrightarrow>
   x callback params s = (Return (Arr [TypeError_new s1, Null]), Suc s1)"
  by (simp add: x_selected detected_pending_method then_catch_borrowed_then try_catch_def
      fault_tuple_def TypeError_new_def)

lemma w_borrowed_then:
  "callback params s = (Return (Obj a c ps), s1) \<Longrightarrow>
   map_of ps ''then'' = Some (Builtin PromiseThen) \<Longrightarrow>
   w callback params s = (Return (Arr [TypeError_new s1, Null]), Suc s1)"
  by (simp add: w_selected detected_pending_method then_catch_borrowed_then try_catch_def
      fault_tuple_def TypeError_new_def)

lemma x_borrowed_catch:
  "callback params s = (Return (Obj a c ps), s1) \<Longrightarrow>
   map_of ps ''then'' = Some (Builtin PromiseCatch) \<Longrightarrow>
   x callback params s = (Return (Arr [RangeError_new s1, Null]), Suc s1)"
  by (simp add: x_selected detected_pending_method then_catch_borrowed_catch try_catch_def
      fault_tuple_def RangeError_new_def)

lemma w_borrowed_catch:
  "callback params s = (Return (Obj a c ps), s1) \<Longrightarrow>
   map_of ps ''then'' = Some (Builtin PromiseCatch) \<Longrightarrow>
   w callback params s = (Return (Arr [RangeError_new s1, Null]), Suc s1)"
  by (simp add: w_selected detected_pending_method then_catch_borrowed_catch try_catch_def
      fault_tuple_def RangeError_new_def)

section \<open>Properties\<close>

text \<open>
  C1, as the code has it. \<open>x\<close> never raises, whatever the callback does. When the callback
  raises, or returns a value that the test for a pending result does not select, \<open>x\<close>
  returns an outcome tuple at once. When the callback returns a host promise, \<open>x\<close>
  returns a promise that is never rejected: it is fulfilled with an outcome tuple as soon as
  the callback's promise settles, and stays pending only while that one does.

  The claim as stated also covers a callback returning an object with a \<^verbatim>\<open>then\<close>
  method of its own. There \<open>x\<close> returns whatever \<^verbatim>\<open>result.then(...).catch(...)\<close>
  returns, which need be neither a tuple nor a promise that resolves: for the callback
  \<open>rogue\<close> it is a promise rejected with 1.
\<close>

theorem execute_never_raises:
  "(\<exists>v s'. x callback params s = (Return v, s')) \<and>
   (callback params s = (Throw e, s1) \<longrightarrow>
      (\<exists>f s'. x callback params s = (Return (Arr [f, Null]), s'))) \<and>
   (callback params s = (Return r, s1) \<and> \<not> detected_pending r \<longrightarrow>
      x callback params s = (Return (Arr [Null, r]), s1)) \<and>
   (callback params s = (Return (Promise st), s1) \<longrightarrow>
      x callback params s = (Return (Promise (chain_of st)), s1) \<and>
      ((\<exists>f v. fst (chain_of st t) = Fulfilled (Arr [f, v])) \<or>
       (fst (st t) = Pending \<and> fst (chain_of st t) = Pending)))"
proof (intro conjI impI)
  show "\<exists>v s'. x callback params s = (Return v, s')"
    by (rule x_returns)
next
  assume "callback params s = (Throw e, s1)"
  then have "x callback params s = fault_tuple e s1"
    by (rule x_throw)
  then show "\<exists>f s'. x callback params s = (Return (Arr [f, Null]), s')"
    using fault_tuple_returns [of e s1] by auto
next
  assume "callback params s = (Return r, s1) \<and> \<not> detected_pending r"
  then show "x callback params s = (Return (Arr [Null, r]), s1)"
    by (simp add: x_plain)
next
  assume "callback params s = (Return (Promise st), s1)"
  then show "x callback params s = (Return (Promise (chain_of st)), s1)"
    by (rule x_promise)
next
  assume "callback params s = (Return (Promise st), s1)"
  obtain o1 t1 where st: "st t = (o1, t1)"
    by (cases "st t")
  show "(\<exists>f v. fst (chain_of st t) = Fulfilled (Arr [f, v])) \<or>
        (fst (st t) = Pending \<and> fst (chain_of st t) = Pending)"
  proof (cases o1)
    case (Fulfilled v)
    with st show ?thesis by (simp add: chained_fulfilled)
  next
    case (Rejected e')
    obtain f t' where "fault_tuple e' t1 = (Return (Arr [f, Null]), t')"
      using fault_tuple_returns by blast
    with st Rejected show ?thesis by (simp add: chained_rejected)
  next
    case Pending
    with st show ?thesis by (simp add: chained_pending)
  qed
qed

theorem execute_promise_rejects_counterexample:
  "x rogue [] 0 = (Return (Promise rejected_one), 2) \<and> rejected_one 2 = (Rejected (Num 1), 2)"
proof -
  have "rogue [] 0 = (Return (Obj 0 ''Object'' [(''then'', Fn rogue_then)]), 1)"
    by (simp add: rogue_def)
  moreover have "map_of [(''then'', Fn rogue_then)] ''then'' = Some (Fn rogue_then)"
    by simp
  moreover have "rogue_then [Some ValueArrow] 1 =
      (Return (Obj 1 ''Object'' [(''catch'', Fn rogue_catch)]), 2)"
    by (simp add: rogue_then_def)
  ultimately have "x rogue [] 0 =
      try_catch (call_method (Obj 1 ''Object'' [(''catch'', Fn rogue_catch)]) ''catch''
                   [Some FaultArrow])
        fault_tuple 2"
    by (rule x_thenable_returns)
  then have "x rogue [] 0 = (Return (Promise rejected_one), 2)"
    by (simp add: try_catch_def call_method_def rogue_catch_def)
  then show ?thesis
    by (simp add: rejected_one_def)
qed

theorem execute_never_raises_witness:
  "(\<exists>f s'. x throw_null [] 0 = (Return (Arr [f, Null]), s')) \<and>
   x sync_five [] 0 = (Return (Arr [Null, Num 5]), 0) \<and>
   x async_boom [] 0 = (Return (Promise (chain_of rejected_boom)), 0) \<and>
   (\<exists>f v. fst (chain_of rejected_boom 1) = Fulfilled (Arr [f, v]))"
proof -
  have a: "throw_null [] 0 = (Throw Null, 0)"
    by (simp add: throw_null_def)
  have b: "sync_five [] 0 = (Return (Num 5), 0) \<and> \<not> detected_pending (Num 5)"
    by (simp add: sync_five_def detected_pending_def)
  have c: "async_boom [] 0 = (Return (Promise rejected_boom), 0)"
    by (simp add: async_boom_def)
  have d: "fst (rejected_boom 1) \<noteq> Pending"
    by (simp add: rejected_boom_def)
  show ?thesis
    using a b c d
      execute_never_raises [where callback = throw_null and params = "[]" and s = 0
        and e = Null and ?s1.0 = 0]
      execute_never_raises [where callback = sync_five and params = "[]" and s = 0
        and r = "Num 5" and ?s1.0 = 0]
      execute_never_raises [where callback = async_boom and params = "[]" and s = 0
        and st = rejected_boom and ?s1.0 = 0 and t = 1]
    by simp
qed

text \<open>
  C2, as the code has it. For \<open>x\<close> and for the function \<open>w\<close> returns alike: when
  the callback raises, the tuple is \<^verbatim>\<open>[f, null]\<close> with \<open>f\<close> not
  \<^verbatim>\<open>null\<close>; when it returns a value that is not selected as pending, the tuple is
  \<^verbatim>\<open>[null, result]\<close>; when it returns a host promise, the promise returned is
  fulfilled with \<^verbatim>\<open>[null, v]\<close> if the callback's promise is fulfilled with
  \<open>v\<close> and with \<^verbatim>\<open>[f, null]\<close>, \<open>f\<close> not \<^verbatim>\<open>null\<close>, if it is
  rejected. So the two slots are never both non-null.

  They can both be null: the value slot holds the callback's result as it is, and
  \<^verbatim>\<open>() => null\<close> gives \<^verbatim>\<open>[null, null]\<close>.
\<close>

theorem tuple_slots_exclusive:
  "(callback params s = (Throw e, s1) \<longrightarrow>
      (\<exists>f s'. f \<noteq> Null \<and> x callback params s = (Return (Arr [f, Null]), s') \<and>
               w callback params s = (Return (Arr [f, Null]), s'))) \<and>
   (callback params s = (Return r, s1) \<and> \<not> detected_pending r \<longrightarrow>
      x callback params s = (Return (Arr [Null, r]), s1) \<and>
      w callback params s = (Return (Arr [Null, r]), s1)) \<and>
   (callback params s = (Return (Promise st), s1) \<longrightarrow>
      x callback params s = (Return (Promise (chain_of st)), s1) \<and>
      w callback params s = (Return (Promise (chain_of st)), s1)) \<and>
   (st t = (Fulfilled v, t1) \<longrightarrow> chain_of st t = (Fulfilled (Arr [Null, v]), t1)) \<and>
   (st t = (Rejected e, t1) \<longrightarrow>
      (\<exists>f t'. f \<noteq> Null \<and> chain_of st t = (Fulfilled (Arr [f, Null]), t')))"
proof (intro conjI impI)
  assume cb: "callback params s = (Throw e, s1)"
  obtain f s' where f: "fault_tuple e s1 = (Return (Arr [f, Null]), s')" "f \<noteq> Null"
    using fault_tuple_returns by blast
  from cb f have "x callback params s = (Return (Arr [f, Null]), s')"
    by (simp add: x_throw)
  moreover from cb f have "w callback params s = (Return (Arr [f, Null]), s')"
    by (simp add: w_throw)
  ultimately show "\<exists>f s'. f \<noteq> Null \<and> x callback params s = (Return (Arr [f, Null]), s') \<and>
      w callback params s = (Return (Arr [f, Null]), s')"
    using f(2) by blast
next
  assume "callback params s = (Return r, s1) \<and> \<not> detected_pending r"
  then show "x callback params s = (Return (Arr [Null, r]), s1)"
    by (simp add: x_plain)
next
  assume "callback params s = (Return r, s1) \<and> \<not> detected_pending r"
  then show "w callback params s = (Return (Arr [Null, r]), s1)"
    by (simp add: w_plain)
next
  assume "callback params s = (Return (Promise st), s1)"
  then show "x callback params s = (Return (Promise (chain_of st)), s1)"
    by (rule x_promise)
next
  assume "callback params s = (Return (Promise st), s1)"
  then show "w callback params s = (Return (Promise (chain_of st)), s1)"
    by (rule w_promise)
next
  assume "st t = (Fulfilled v, t1)"
  then show "chain_of st t = (Fulfilled (Arr [Null, v]), t1)"
    by (rule chained_fulfilled)
next
  assume st: "st t = (Rejected e, t1)"
  obtain f t' where f: "fault_tuple e t1 = (Return (Arr [f, Null]), t')" "f \<noteq> Null"
    using fault_tuple_returns by blast
  with st have "chain_of st t = (Fulfilled (Arr [f, Null]), t')"
    by (simp add: chained_rejected)
  with f(2) show "\<exists>f t'. f \<noteq> Null \<and> chain_of st t = (Fulfilled (Arr [f, Null]), t')"
    by blast
qed

theorem both_slots_null_counterexample:
  "x return_null [] 0 = (Return (Arr [Null, Null]), 0)"
proof -
  have "return_null [] 0 = (Return Null, 0)"
    by (simp add: return_null_def)
  moreover have "\<not> detected_pending Null"
    by (simp add: detected_pending_def)
  ultimately show ?thesis
    by (rule x_plain)
qed

theorem tuple_slots_exclusive_witness:
  "(\<exists>f s'. f \<noteq> Null \<and> x throw_boom [] 0 = (Return (Arr [f, Null]), s') \<and>
            w throw_boom [] 0 = (Return (Arr [f, Null]), s')) \<and>
   x return_zero [] 0 = (Return (Arr [Null, Num 0]), 0) \<and>
   w return_zero [] 0 = (Return (Arr [Null, Num 0]), 0) \<and>
   x async_five [] 0 = (Return (Promise (chain_of fulfilled_five)), 0) \<and>
   w async_five [] 0 = (Return (Promise (chain_of fulfilled_five)), 0) \<and>
   chain_of fulfilled_five 3 = (Fulfilled (Arr [Null, Num 5]), 3) \<and>
   (\<exists>f t'. f \<noteq> Null \<and> chain_of rejected_boom 3 = (Fulfilled (Arr [f, Null]), t'))"
proof -
  have a: "throw_boom [] 0 = (Throw (boom 0), 1)"
    by (simp add: throw_boom_def)
  have b: "return_zero [] 0 = (Return (Num 0), 0) \<and> \<not> detected_pending (Num 0)"
    by (simp add: return_zero_def detected_pending_def)
  have c: "async_five [] 0 = (Return (Promise fulfilled_five), 0)"
    by (simp add: async_five_def)
  have d: "fulfilled_five 3 = (Fulfilled (Num 5), 3)"
    by (simp add: fulfilled_five_def)
  have e: "rejected_boom 3 = (Rejected (boom 0), 3)"
    by (simp add: rejected_boom_def)
  show ?thesis
    using a b c d e
      tuple_slots_exclusive [where callback = throw_boom and params = "[]" and s = 0
        and e = "boom 0" and ?s1.0 = 1 and st = rejected_boom and t = 3 and ?t1.0 = 3]
      tuple_slots_exclusive [where callback = return_zero and params = "[]" and s = 0
        and r = "Num 0" and ?s1.0 = 0]
      tuple_slots_exclusive [where callback = async_five and params = "[]" and s = 0
        and st = fulfilled_five and ?s1.0 = 0 and t = 3 and v = "Num 5" and ?t1.0 = 3]
    by simp
qed

text \<open>
  C3. When the callback throws \<^verbatim>\<open>null\<close>, \<open>x\<close> returns the tuple whose fault
  slot is the object \<^verbatim>\<open>new NullError()\<close> creates there and whose value slot is
  \<^verbatim>\<open>null\<close>; when the callback returns a host promise that is rejected with
  \<^verbatim>\<open>null\<close>, the promise \<open>x\<close> returns is fulfilled with such a tuple. The
  object is new (it sits at the reference the allocator had not handed out yet, and the
  allocator moves past it), it is an instance of \<^verbatim>\<open>NullError\<close>, and its message
  is \<^verbatim>\<open>"null"\<close>.
\<close>

theorem null_becomes_NullError:
  "(callback params s = (Throw Null, s1) \<longrightarrow>
      x callback params s = (Return (Arr [NullError_new s1, Null]), Suc s1)) \<and>
   (callback params s = (Return (Promise st), s1) \<and> st t = (Rejected Null, t1) \<longrightarrow>
      x callback params s = (Return (Promise (chain_of st)), s1) \<and>
      chain_of st t = (Fulfilled (Arr [NullError_new t1, Null]), Suc t1)) \<and>
   instanceof (NullError_new r) ''NullError'' \<and>
   get_prop (NullError_new r) ''message'' = Str ''null'' \<and>
   ref_of (NullError_new r) = Some r"
proof (intro conjI impI)
  assume "callback params s = (Throw Null, s1)"
  then show "x callback params s = (Return (Arr [NullError_new s1, Null]), Suc s1)"
    by (simp add: x_throw fault_tuple_null)
next
  assume "callback params s = (Return (Promise st), s1) \<and> st t = (Rejected Null, t1)"
  then show "x callback params s = (Return (Promise (chain_of st)), s1)"
    by (simp add: x_promise)
next
  assume "callback params s = (Return (Promise st), s1) \<and> st t = (Rejected Null, t1)"
  then show "chain_of st t = (Fulfilled (Arr [NullError_new t1, Null]), Suc t1)"
    by (simp add: chained_rejected_null)
next
  show "instanceof (NullError_new r) ''NullError''"
    by (simp add: instanceof_def NullError_new_def)
next
  show "get_prop (NullError_new r) ''message'' = Str ''null''"
    by (simp add: NullError_new_def)
next
  show "ref_of (NullError_new r) = Some r"
    by (simp add: ref_of_def NullError_new_def)
qed

theorem null_becomes_NullError_witness:
  "x throw_null [] 0 = (Return (Arr [NullError_new 0, Null]), 1) \<and>
   x async_throw_null [] 0 = (Return (Promise (chain_of rejected_null)), 0) \<and>
   chain_of rejected_null 4 = (Fulfilled (Arr [NullError_new 4, Null]), 5) \<and>
   instanceof (NullError_new 4) ''NullError'' \<and>
   get_prop (NullError_new 4) ''message'' = Str ''null'' \<and>
   ref_of (NullError_new 4) = Some 4"
proof -
  have a: "throw_null [] 0 = (Throw Null, 0)"
    by (simp add: throw_null_def)
  have b: "async_throw_null [] 0 = (Return (Promise rejected_null), 0) \<and>
           rejected_null 4 = (Rejected Null, 4)"
    by (simp add: async_throw_null_def rejected_null_def)
  show ?thesis
    using a b
      null_becomes_NullError [where callback = throw_null and params = "[]" and s = 0
        and ?s1.0 = 0 and r = 4]
      null_becomes_NullError [where callback = async_throw_null and params = "[]" and s = 0
        and ?s1.0 = 0 and st = rejected_null and t = 4 and ?t1.0 = 4 and r = 4]
    by simp
qed

text \<open>
  C4. When the callback throws a value \<open>e\<close> other than \<^verbatim>\<open>null\<close>, \<open>x\<close>
  returns the tuple \<^verbatim>\<open>[e, null]\<close>; when the callback returns a host promise that
  is rejected with such an \<open>e\<close>, the promise \<open>x\<close> returns is fulfilled with
  \<^verbatim>\<open>[e, null]\<close>. The fault slot holds \<open>e\<close> itself: for an object, the same
  reference, class and properties, and nothing is allocated on the way.
\<close>

theorem fault_passes_through:
  "e \<noteq> Null \<Longrightarrow>
   (callback params s = (Throw e, s1) \<longrightarrow>
      x callback params s = (Return (Arr [e, Null]), s1)) \<and>
   (callback params s = (Return (Promise st), s1) \<and> st t = (Rejected e, t1) \<longrightarrow>
      x callback params s = (Return (Promise (chain_of st)), s1) \<and>
      chain_of st t = (Fulfilled (Arr [e, Null]), t1))"
  by (simp add: x_throw fault_tuple_other x_promise chained_rejected_other)

theorem fault_passes_through_witness:
  "x throw_boom [] 0 = (Return (Arr [boom 0, Null]), 1) \<and>
   x async_boom [] 0 = (Return (Promise (chain_of rejected_boom)), 0) \<and>
   chain_of rejected_boom 7 = (Fulfilled (Arr [boom 0, Null]), 7) \<and>
   boom 0 = Obj 0 ''Error'' [(''message'', Str ''boom''), (''name'', Str ''Error'')]"
proof -
  have a: "boom 0 \<noteq> Null"
    by (simp add: boom_def)
  have b: "throw_boom [] 0 = (Throw (boom 0), 1)"
    by (simp add: throw_boom_def)
  have c: "async_boom [] 0 = (Return (Promise rejected_boom), 0) \<and>
           rejected_boom 7 = (Rejected (boom 0), 7)"
    by (simp add: async_boom_def rejected_boom_def)
  show ?thesis
    using b c
      fault_passes_through [OF a, where callback = throw_boom and params = "[]" and s = 0
        and ?s1.0 = 1]
      fault_passes_through [OF a, where callback = async_boom and params = "[]" and s = 0
        and ?s1.0 = 0 and st = rejected_boom and t = 7 and ?t1.0 = 7]
    by (simp add: boom_def)
qed

text \<open>
  C5. For every callback and every argument list, calling the function that \<open>w\<close>
  returns gives what \<open>x\<close> gives on the same callback and arguments, from the same
  state: the same outcome tuple when the callback is synchronous and the same promise when it
  is asynchronous. The function is a closure over the callback only, so the test for a
  pending result is made anew on each call.
\<close>

theorem wrap_equals_execute: "w callback params s = x callback params s"
  by (simp add: w_def x_def)

text \<open>
  C6, as the code has it. The outer layer of a twice wrapped callback treats what the inner
  layer returns like any other result.
  \<^item> When the inner call returns an outcome tuple \<open>t\<close> at once, the outer call returns
    \<^verbatim>\<open>[null, t]\<close> at once.
  \<^item> When the inner call returns a host promise, the outer call selects it as pending and
    returns a host promise too, not an array holding one. That promise is fulfilled with
    \<^verbatim>\<open>[null, t']\<close> when the inner promise is fulfilled with \<open>t'\<close>; it is
    fulfilled with the fault tuple of \<open>e\<close>, through the outer failure path, when the inner
    promise is rejected with \<open>e\<close>; it stays pending while the inner promise does.
  \<^item> When the callback raises, returns a value that is not selected as pending, or returns
    a host promise, the inner promise is never rejected, and the outer success path fires
    with the inner tuple, whole, as its value: \<^verbatim>\<open>[null, [fault, null]]\<close> or
    \<^verbatim>\<open>[null, [null, value]]\<close>, at once or as what the returned promise is fulfilled
    with.
  An inner promise that is rejected comes from a callback returning an object with a
  \<^verbatim>\<open>then\<close> of its own, such as \<open>rogue\<close>; there the outer failure path fires.

  The claim as stated has the outer call yield \<^verbatim>\<open>[null, t]\<close> with \<open>t\<close> the
  pending tuple of the inner call; for \<^verbatim>\<open>async () => 5\<close> the outer call returns
  a promise, not an array holding one.
\<close>

theorem double_wrap:
  "(w callback params s = (Return (Arr [f, v]), s1) \<longrightarrow>
      w (w callback) params s = (Return (Arr [Null, Arr [f, v]]), s1)) \<and>
   (w callback params s = (Return (Promise st), s1) \<longrightarrow>
      w (w callback) params s = (Return (Promise (chain_of st)), s1)) \<and>
   (st t = (Fulfilled u, t1) \<longrightarrow> chain_of st t = (Fulfilled (Arr [Null, u]), t1)) \<and>
   (st t = (Rejected e, t1) \<longrightarrow>
      chain_of st t =
        (if e = Null then (Fulfilled (Arr [NullError_new t1, Null]), Suc t1)
         else (Fulfilled (Arr [e, Null]), t1))) \<and>
   (st t = (Pending, t1) \<longrightarrow> chain_of st t = (Pending, t1)) \<and>
   (callback params s = (Throw e, s1) \<longrightarrow>
      w (w callback) params s =
        (if e = Null then (Return (Arr [Null, Arr [NullError_new s1, Null]]), Suc s1)
         else (Return (Arr [Null, Arr [e, Null]]), s1))) \<and>
   (callback params s = (Return r, s1) \<and> \<not> detected_pending r \<longrightarrow>
      w (w callback) params s = (Return (Arr [Null, Arr [Null, r]]), s1)) \<and>
   (callback params s = (Return (Promise p), s1) \<longrightarrow>
      w (w callback) params s = (Return (Promise (chain_of (chain_of p))), s1)) \<and>
   (p t = (Fulfilled u, t1) \<longrightarrow>
      chain_of (chain_of p) t = (Fulfilled (Arr [Null, Arr [Null, u]]), t1)) \<and>
   (p t = (Rejected e, t1) \<longrightarrow>
      chain_of (chain_of p) t =
        (if e = Null then (Fulfilled (Arr [Null, Arr [NullError_new t1, Null]]), Suc t1)
         else (Fulfilled (Arr [Null, Arr [e, Null]]), t1))) \<and>
   (p t = (Pending, t1) \<longrightarrow> chain_of (chain_of p) t = (Pending, t1)) \<and>
   fst (chain_of p t) \<noteq> Rejected e'"
proof -
  have tuple: "w callback params s = (Return (Arr [f, v]), s1) \<longrightarrow>
      w (w callback) params s = (Return (Arr [Null, Arr [f, v]]), s1)"
    using w_plain [of "w callback" params s "Arr [f, v]" s1] not_detected_Arr by blast
  have promise: "w callback params s = (Return (Promise st), s1) \<longrightarrow>
      w (w callback) params s = (Return (Promise (chain_of st)), s1)"
    using w_promise [of "w callback" params s st s1] by blast
  have ful: "st t = (Fulfilled u, t1) \<longrightarrow> chain_of st t = (Fulfilled (Arr [Null, u]), t1)"
    by (simp add: chained_fulfilled)
  have rej: "st t = (Rejected e, t1) \<longrightarrow>
      chain_of st t =
        (if e = Null then (Fulfilled (Arr [NullError_new t1, Null]), Suc t1)
         else (Fulfilled (Arr [e, Null]), t1))"
    by (simp add: chained_rejected_null chained_rejected_other)
  have pen: "st t = (Pending, t1) \<longrightarrow> chain_of st t = (Pending, t1)"
    by (simp add: chained_pending)
  have thrown: "callback params s = (Throw e, s1) \<longrightarrow>
      w (w callback) params s =
        (if e = Null then (Return (Arr [Null, Arr [NullError_new s1, Null]]), Suc s1)
         else (Return (Arr [Null, Arr [e, Null]]), s1))"
  proof
    assume cb: "callback params s = (Throw e, s1)"
    show "w (w callback) params s =
        (if e = Null then (Return (Arr [Null, Arr [NullError_new s1, Null]]), Suc s1)
         else (Return (Arr [Null, Arr [e, Null]]), s1))"
    proof (cases "e = Null")
      case True
      with cb have "w callback params s = (Return (Arr [NullError_new s1, Null]), Suc s1)"
        by (simp add: w_throw fault_tuple_null)
      then have "w (w callback) params s =
          (Return (Arr [Null, Arr [NullError_new s1, Null]]), Suc s1)"
        using not_detected_Arr by (rule w_plain)
      with True show ?thesis by simp
    next
      case False
      with cb have "w callback params s = (Return (Arr [e, Null]), s1)"
        by (simp add: w_throw fault_tuple_other)
      then have "w (w callback) params s = (Return (Arr [Null, Arr [e, Null]]), s1)"
        using not_detected_Arr by (rule w_plain)
      with False show ?thesis by simp
    qed
  qed
  have plain: "callback params s = (Return r, s1) \<and> \<not> detected_pending r \<longrightarrow>
      w (w callback) params s = (Return (Arr [Null, Arr [Null, r]]), s1)"
  proof
    assume "callback params s = (Return r, s1) \<and> \<not> detected_pending r"
    then have "w callback params s = (Return (Arr [Null, r]), s1)"
      by (simp add: w_plain)
    then show "w (w callback) params s = (Return (Arr [Null, Arr [Null, r]]), s1)"
      using not_detected_Arr by (rule w_plain)
  qed
  have promise2: "callback params s = (Return (Promise p), s1) \<longrightarrow>
      w (w callback) params s = (Return (Promise (chain_of (chain_of p))), s1)"
  proof
    assume "callback params s = (Return (Promise p), s1)"
    then have "w callback params s = (Return (Promise (chain_of p)), s1)"
      by (rule w_promise)
    then show "w (w callback) params s = (Return (Promise (chain_of (chain_of p))), s1)"
      by (rule w_promise)
  qed
  have ful2: "p t = (Fulfilled u, t1) \<longrightarrow>
      chain_of (chain_of p) t = (Fulfilled (Arr [Null, Arr [Null, u]]), t1)"
    by (simp add: chained_fulfilled)
  have rej2: "p t = (Rejected e, t1) \<longrightarrow>
      chain_of (chain_of p) t =
        (if e = Null then (Fulfilled (Arr [Null, Arr [NullError_new t1, Null]]), Suc t1)
         else (Fulfilled (Arr [Null, Arr [e, Null]]), t1))"
    by (simp add: chained_fulfilled chained_rejected_null chained_rejected_other)
  have pen2: "p t = (Pending, t1) \<longrightarrow> chain_of (chain_of p) t = (Pending, t1)"
    by (simp add: chained_pending)
  have never: "fst (chain_of p t) \<noteq> Rejected e'"
  proof -
    obtain o1 t2 where st: "p t = (o1, t2)"
      by (cases "p t")
    show ?thesis
    proof (cases o1)
      case (Fulfilled v')
      with st show ?thesis by (simp add: chained_fulfilled)
    next
      case (Rejected e2)
      with st show ?thesis
        by (cases "e2 = Null") (simp_all add: chained_rejected_null chained_rejected_other)
    next
      case Pending
      with st show ?thesis by (simp add: chained_pending)
    qed
  qed
  from tuple promise ful rej pen thrown plain promise2 ful2 rej2 pen2 never
  show ?thesis by blast
qed

theorem double_wrap_witness:
  "w (w throw_boom) [] 0 = (Return (Arr [Null, Arr [boom 0, Null]]), 1) \<and>
   w (w throw_null) [] 0 = (Return (Arr [Null, Arr [NullError_new 0, Null]]), 1) \<and>
   w (w return_zero) [] 0 = (Return (Arr [Null, Arr [Null, Num 0]]), 0) \<and>
   w (w async_five) [] 0 = (Return (Promise (chain_of (chain_of fulfilled_five))), 0) \<and>
   chain_of (chain_of fulfilled_five) 2 = (Fulfilled (Arr [Null, Arr [Null, Num 5]]), 2) \<and>
   w (w async_boom) [] 0 = (Return (Promise (chain_of (chain_of rejected_boom))), 0) \<and>
   chain_of (chain_of rejected_boom) 2 = (Fulfilled (Arr [Null, Arr [boom 0, Null]]), 2) \<and>
   fst (chain_of rejected_boom 2) \<noteq> Rejected (boom 0) \<and>
   w rogue [] 0 = (Return (Promise rejected_one), 2) \<and>
   w (w rogue) [] 0 = (Return (Promise (chain_of rejected_one)), 2) \<and>
   chain_of rejected_one 3 = (Fulfilled (Arr [Num 1, Null]), 3)"
proof -
  have ne: "boom 0 \<noteq> Null"
    by (simp add: boom_def)
  have a: "throw_boom [] 0 = (Throw (boom 0), 1)"
    by (simp add: throw_boom_def)
  have b: "throw_null [] 0 = (Throw Null, 0)"
    by (simp add: throw_null_def)
  have c: "return_zero [] 0 = (Return (Num 0), 0) \<and> \<not> detected_pending (Num 0)"
    by (simp add: return_zero_def detected_pending_def)
  have d: "async_five [] 0 = (Return (Promise fulfilled_five), 0) \<and>
      fulfilled_five 2 = (Fulfilled (Num 5), 2)"
    by (simp add: async_five_def fulfilled_five_def)
  have e: "async_boom [] 0 = (Return (Promise rejected_boom), 0) \<and>
      rejected_boom 2 = (Rejected (boom 0), 2)"
    by (simp add: async_boom_def rejected_boom_def)
  have "w rogue [] 0 =
      try_catch (call_method (Obj 1 ''Object'' [(''catch'', Fn rogue_catch)]) ''catch''
                   [Some FaultArrow])
        fault_tuple 2"
  proof (rule w_thenable_returns)
    show "rogue [] 0 = (Return (Obj 0 ''Object'' [(''then'', Fn rogue_then)]), 1)"
      by (simp add: rogue_def)
    show "map_of [(''then'', Fn rogue_then)] ''then'' = Some (Fn rogue_then)"
      by simp
    show "rogue_then [Some ValueArrow] 1 =
        (Return (Obj 1 ''Object'' [(''catch'', Fn rogue_catch)]), 2)"
      by (simp add: rogue_then_def)
  qed
  then have f: "w rogue [] 0 = (Return (Promise rejected_one), 2)"
    by (simp add: try_catch_def call_method_def rogue_catch_def)
  have g: "rejected_one 3 = (Rejected (Num 1), 3)"
    by (simp add: rejected_one_def)
  show ?thesis
    using ne a b c d e f g
      double_wrap [where callback = throw_boom and params = "[]" and s = 0
        and e = "boom 0" and ?s1.0 = 1]
      double_wrap [where callback = throw_null and params = "[]" and s = 0
        and e = Null and ?s1.0 = 0]
      double_wrap [where callback = return_zero and params = "[]" and s = 0
        and r = "Num 0" and ?s1.0 = 0]
      double_wrap [where callback = async_five and params = "[]" and s = 0
        and p = fulfilled_five and ?s1.0 = 0 and t = 2 and u = "Num 5" and ?t1.0 = 2]
      double_wrap [where callback = async_boom and params = "[]" and s = 0
        and p = rejected_boom and ?s1.0 = 0 and t = 2 and e = "boom 0" and ?t1.0 = 2
        and e' = "boom 0"]
      double_wrap [where callback = rogue and params = "[]" and s = 0
        and st = rejected_one and ?s1.0 = 2 and t = 3 and e = "Num 1" and ?t1.0 = 3]
    by simp
qed

theorem double_wrap_async_counterexample:
  "w async_five [] 0 = (Return (Promise (chain_of fulfilled_five)), 0) \<and>
   w (w async_five) [] 0 = (Return (Promise (chain_of (chain_of fulfilled_five))), 0) \<and>
   w (w async_five) [] 0 \<noteq> (Return (Arr [Null, Promise (chain_of fulfilled_five)]), 0)"
proof -
  have a: "w async_five [] 0 = (Return (Promise (chain_of fulfilled_five)), 0)"
    by (simp add: w_promise async_five_def)
  then have "w (w async_five) [] 0 = (Return (Promise (chain_of (chain_of fulfilled_five))), 0)"
    by (rule w_promise)
  with a show ?thesis by simp
qed

text \<open>
  C7. When the callback raises before it returns, \<open>x\<close> and the function \<open>w\<close>
  returns give at once the tuple of the fault and \<^verbatim>\<open>null\<close>, the fault being
  a new \<^verbatim>\<open>NullError\<close> for \<^verbatim>\<open>null\<close> and the raised value otherwise.
  The result is an array, never a promise, whatever the callback was meant to be; the test
  for a pending result is not applied to what was raised, so that even a promise that is
  thrown ends up in the fault slot.
\<close>

theorem sync_raise_failure_path:
  "callback params s = (Throw e, s1) \<Longrightarrow>
   x callback params s =
     (if e = Null then (Return (Arr [NullError_new s1, Null]), Suc s1)
      else (Return (Arr [e, Null]), s1)) \<and>
   w callback params s =
     (if e = Null then (Return (Arr [NullError_new s1, Null]), Suc s1)
      else (Return (Arr [e, Null]), s1))"
  by (simp add: x_throw w_throw fault_tuple_null fault_tuple_other)

theorem sync_raise_failure_path_witness:
  "x throw_promise [] 0 = (Return (Arr [Promise fulfilled_five, Null]), 0) \<and>
   w throw_promise [] 0 = (Return (Arr [Promise fulfilled_five, Null]), 0) \<and>
   x throw_null [] 0 = (Return (Arr [NullError_new 0, Null]), 1) \<and>
   w throw_null [] 0 = (Return (Arr [NullError_new 0, Null]), 1)"
proof -
  have a: "throw_promise [] 0 = (Throw (Promise fulfilled_five), 0)"
    by (simp add: throw_promise_def)
  have b: "throw_null [] 0 = (Throw Null, 0)"
    by (simp add: throw_null_def)
  show ?thesis
    using a b
      sync_raise_failure_path [where callback = throw_promise and params = "[]" and s = 0
        and e = "Promise fulfilled_five" and ?s1.0 = 0]
      sync_raise_failure_path [where callback = throw_null and params = "[]" and s = 0
        and e = Null and ?s1.0 = 0]
    by simp
qed

text \<open>
  C8. \<open>x\<close> on \<^verbatim>\<open>() => 5\<close> returns the tuple \<^verbatim>\<open>[null, 5]\<close> at once, and
  on \<^verbatim>\<open>async () => 5\<close> it returns a promise that is fulfilled with
  \<^verbatim>\<open>[null, 5]\<close>.
\<close>

theorem sync_async_five:
  "x sync_five [] s = (Return (Arr [Null, Num 5]), s) \<and>
   x async_five [] s = (Return (Promise (chain_of fulfilled_five)), s) \<and>
   chain_of fulfilled_five t = (Fulfilled (Arr [Null, Num 5]), t)"
proof -
  have "\<not> detected_pending (Num 5)"
    by (simp add: detected_pending_def)
  then have "x sync_five [] s = (Return (Arr [Null, Num 5]), s)"
    by (simp add: x_plain sync_five_def)
  moreover have "x async_five [] s = (Return (Promise (chain_of fulfilled_five)), s)"
    by (simp add: x_promise async_five_def)
  moreover have "chain_of fulfilled_five t = (Fulfilled (Arr [Null, Num 5]), t)"
    by (simp add: chained_fulfilled fulfilled_five_def)
  ultimately show ?thesis by simp
qed

text \<open>
  C9. The comparison with \<^verbatim>\<open>null\<close> is strict. A falsy value other than
  \<^verbatim>\<open>null\<close> (\<^verbatim>\<open>undefined\<close>, \<^verbatim>\<open>0\<close>, \<^verbatim>\<open>NaN\<close>,
  \<^verbatim>\<open>''\<close>, \<^verbatim>\<open>false\<close>) that the callback throws, or that its promise is
  rejected with, is put in the fault slot as it is, by \<open>x\<close> and by the function \<open>w\<close>
  returns; it is no \<^verbatim>\<open>NullError\<close>.
\<close>

theorem falsy_fault_kept:
  "\<not> truthy e \<Longrightarrow> e \<noteq> Null \<Longrightarrow>
   (callback params s = (Throw e, s1) \<longrightarrow>
      x callback params s = (Return (Arr [e, Null]), s1) \<and>
      w callback params s = (Return (Arr [e, Null]), s1)) \<and>
   (callback params s = (Return (Promise st), s1) \<and> st t = (Rejected e, t1) \<longrightarrow>
      x callback params s = (Return (Promise (chain_of st)), s1) \<and>
      w callback params s = (Return (Promise (chain_of st)), s1) \<and>
      chain_of st t = (Fulfilled (Arr [e, Null]), t1)) \<and>
   \<not> instanceof e ''NullError''"
proof -
  assume falsy: "\<not> truthy e" and ne: "e \<noteq> Null"
  from falsy have "\<not> instanceof e ''NullError''"
    by (cases e) (simp_all add: instanceof_def)
  with ne show ?thesis
    by (simp add: x_throw w_throw fault_tuple_other x_promise w_promise chained_rejected_other)
qed

theorem falsy_fault_kept_witness:
  "x throw_undefined [] 0 = (Return (Arr [Undefined, Null]), 0) \<and>
   w throw_undefined [] 0 = (Return (Arr [Undefined, Null]), 0) \<and>
   x async_throw_undefined [] 0 = (Return (Promise (chain_of rejected_undefined)), 0) \<and>
   w async_throw_undefined [] 0 = (Return (Promise (chain_of rejected_undefined)), 0) \<and>
   chain_of rejected_undefined 6 = (Fulfilled (Arr [Undefined, Null]), 6) \<and>
   \<not> instanceof Undefined ''NullError''"
proof -
  have f: "\<not> truthy Undefined" and n: "Undefined \<noteq> Null"
    by simp_all
  have a: "throw_undefined [] 0 = (Throw Undefined, 0)"
    by (simp add: throw_undefined_def)
  have b: "async_throw_undefined [] 0 = (Return (Promise rejected_undefined), 0) \<and>
           rejected_undefined 6 = (Rejected Undefined, 6)"
    by (simp add: async_throw_undefined_def rejected_undefined_def)
  show ?thesis
    using a b
      falsy_fault_kept [OF f n, where callback = throw_undefined and params = "[]" and s = 0
        and ?s1.0 = 0]
      falsy_fault_kept [OF f n, where callback = async_throw_undefined and params = "[]"
        and s = 0 and ?s1.0 = 0 and st = rejected_undefined and t = 6 and ?t1.0 = 6]
    by simp
qed

text \<open>
  C10. A returned value is treated as pending exactly when it is truthy and its
  \<^verbatim>\<open>then\<close> property is a function.
  \<^item> Otherwise it is put in the value slot at once: \<^verbatim>\<open>[null, result]\<close>. That is
    so for every falsy value, \<^verbatim>\<open>null\<close>, \<^verbatim>\<open>undefined\<close>, \<^verbatim>\<open>0\<close>,
    \<^verbatim>\<open>''\<close>, \<^verbatim>\<open>false\<close> and \<^verbatim>\<open>NaN\<close> among them.
  \<^item> If it is, the expression \<^verbatim>\<open>result.then(...).catch(...)\<close> is evaluated
    inside the \<^verbatim>\<open>try\<close> block, and its value is returned, or the fault tuple of
    what it raised.
  \<^item> For a host promise that value is the chained promise.
  \<^item> For any other object whose \<^verbatim>\<open>then\<close> is a function of the caller's, that
    \<^verbatim>\<open>then\<close> is called with the value arrow. If the call raises, the fault tuple
    of what it raised is returned; if it returns \<open>n\<close>, the result is that of calling
    \<^verbatim>\<open>n.catch(...)\<close> with the fault arrow inside the \<^verbatim>\<open>try\<close> block.
  \<^item> An object that borrowed the host's \<^verbatim>\<open>then\<close> without being a promise makes
    that call raise a \<^verbatim>\<open>TypeError\<close>, and one that borrowed the host's
    \<^verbatim>\<open>catch\<close> as its \<^verbatim>\<open>then\<close> makes it raise a \<^verbatim>\<open>RangeError\<close>;
    both end in the fault slot.
  The same holds for \<open>x\<close> and for the function \<open>w\<close> returns.
\<close>

theorem pending_detection:
  "(callback params s = (Return r, s1) \<and>
    \<not> (truthy r \<and> typeof (get_prop r ''then'') = ''function'') \<longrightarrow>
      x callback params s = (Return (Arr [Null, r]), s1) \<and>
      w callback params s = (Return (Arr [Null, r]), s1)) \<and>
   (callback params s = (Return r, s1) \<and>
    truthy r \<and> typeof (get_prop r ''then'') = ''function'' \<longrightarrow>
      x callback params s = try_catch (then_catch r) fault_tuple s1 \<and>
      w callback params s = try_catch (then_catch r) fault_tuple s1) \<and>
   (callback params s = (Return (Promise st), s1) \<longrightarrow>
      x callback params s = (Return (Promise (chain_of st)), s1) \<and>
      w callback params s = (Return (Promise (chain_of st)), s1)) \<and>
   (callback params s = (Return (Obj a c ps), s1) \<and> map_of ps ''then'' = Some (Fn body) \<and>
    body [Some ValueArrow] s1 = (Throw e, s2) \<longrightarrow>
      x callback params s = fault_tuple e s2 \<and>
      w callback params s = fault_tuple e s2) \<and>
   (callback params s = (Return (Obj a c ps), s1) \<and> map_of ps ''then'' = Some (Fn body) \<and>
    body [Some ValueArrow] s1 = (Return n, s2) \<longrightarrow>
      x callback params s =
        try_catch (call_method n ''catch'' [Some FaultArrow]) fault_tuple s2 \<and>
      w callback params s =
        try_catch (call_method n ''catch'' [Some FaultArrow]) fault_tuple s2) \<and>
   (callback params s = (Return (Obj a c ps), s1) \<and>
    map_of ps ''then'' = Some (Builtin PromiseThen) \<longrightarrow>
      x callback params s = (Return (Arr [TypeError_new s1, Null]), Suc s1) \<and>
      w callback params s = (Return (Arr [TypeError_new s1, Null]), Suc s1)) \<and>
   (callback params s = (Return (Obj a c ps), s1) \<and>
    map_of ps ''then'' = Some (Builtin PromiseCatch) \<longrightarrow>
      x callback params s = (Return (Arr [RangeError_new s1, Null]), Suc s1) \<and>
      w callback params s = (Return (Arr [RangeError_new s1, Null]), Suc s1)) \<and>
   \<not> truthy Null \<and> \<not> truthy Undefined \<and> \<not> truthy (Num 0) \<and> \<not> truthy (Str []) \<and>
   \<not> truthy (Bool False) \<and> \<not> truthy NaN"
proof -
  have 1: "callback params s = (Return r, s1) \<and>
      \<not> (truthy r \<and> typeof (get_prop r ''then'') = ''function'') \<longrightarrow>
      x callback params s = (Return (Arr [Null, r]), s1) \<and>
      w callback params s = (Return (Arr [Null, r]), s1)"
    using x_plain [of callback params s r s1] w_plain [of callback params s r s1]
    by (simp add: detected_pending_def)
  have 2: "callback params s = (Return r, s1) \<and>
      truthy r \<and> typeof (get_prop r ''then'') = ''function'' \<longrightarrow>
      x callback params s = try_catch (then_catch r) fault_tuple s1 \<and>
      w callback params s = try_catch (then_catch r) fault_tuple s1"
    using x_selected [of callback params s r s1] w_selected [of callback params s r s1]
    by (simp add: detected_pending_def)
  have 3: "callback params s = (Return (Promise st), s1) \<longrightarrow>
      x callback params s = (Return (Promise (chain_of st)), s1) \<and>
      w callback params s = (Return (Promise (chain_of st)), s1)"
    by (simp add: x_promise w_promise)
  have 4: "callback params s = (Return (Obj a c ps), s1) \<and> map_of ps ''then'' = Some (Fn body) \<and>
      body [Some ValueArrow] s1 = (Throw e, s2) \<longrightarrow>
      x callback params s = fault_tuple e s2 \<and> w callback params s = fault_tuple e s2"
    using x_thenable_throws [of callback params s a c ps s1 body e s2]
      w_thenable_throws [of callback params s a c ps s1 body e s2]
    by blast
  have 5: "callback params s = (Return (Obj a c ps), s1) \<and> map_of ps ''then'' = Some (Fn body) \<and>
      body [Some ValueArrow] s1 = (Return n, s2) \<longrightarrow>
      x callback params s =
        try_catch (call_method n ''catch'' [Some FaultArrow]) fault_tuple s2 \<and>
      w callback params s =
        try_catch (call_method n ''catch'' [Some FaultArrow]) fault_tuple s2"
    using x_thenable_returns [of callback params s a c ps s1 body n s2]
      w_thenable_returns [of callback params s a c ps s1 body n s2]
    by blast
  have 6: "callback params s = (Return (Obj a c ps), s1) \<and>
      map_of ps ''then'' = Some (Builtin PromiseThen) \<longrightarrow>
      x callback params s = (Return (Arr [TypeError_new s1, Null]), Suc s1) \<and>
      w callback params s = (Return (Arr [TypeError_new s1, Null]), Suc s1)"
    using x_borrowed_then [of callback params s a c ps s1]
      w_borrowed_then [of callback params s a c ps s1]
    by blast
  have 7: "callback params s = (Return (Obj a c ps), s1) \<and>
      map_of ps ''then'' = Some (Builtin PromiseCatch) \<longrightarrow>
      x callback params s = (Return (Arr [RangeError_new s1, Null]), Suc s1) \<and>
      w callback params s = (Return (Arr [RangeError_new s1, Null]), Suc s1)"
    using x_borrowed_catch [of callback params s a c ps s1]
      w_borrowed_catch [of callback params s a c ps s1]
    by blast
  have 8: "\<not> truthy Null \<and> \<not> truthy Undefined \<and> \<not> truthy (Num 0) \<and> \<not> truthy (Str []) \<and>
      \<not> truthy (Bool False) \<and> \<not> truthy NaN"
    by simp
  from 1 2 3 4 5 6 7 8 show ?thesis
    by blast
qed

theorem pending_detection_witness:
  "x return_zero [] 0 = (Return (Arr [Null, Num 0]), 0) \<and>
   w return_zero [] 0 = (Return (Arr [Null, Num 0]), 0) \<and>
   x return_then_one [] 0 = (Return (Arr [Null, Obj 0 ''Object'' [(''then'', Num 1)]]), 1) \<and>
   w return_then_one [] 0 = (Return (Arr [Null, Obj 0 ''Object'' [(''then'', Num 1)]]), 1) \<and>
   x async_five [] 0 = (Return (Promise (chain_of fulfilled_five)), 0) \<and>
   w async_five [] 0 = (Return (Promise (chain_of fulfilled_five)), 0) \<and>
   x throwing_thenable [] 0 = (Return (Arr [NullError_new 1, Null]), 2) \<and>
   w throwing_thenable [] 0 = (Return (Arr [NullError_new 1, Null]), 2) \<and>
   x bare_thenable [] 0 = (Return (Arr [TypeError_new 1, Null]), 2) \<and>
   w bare_thenable [] 0 = (Return (Arr [TypeError_new 1, Null]), 2) \<and>
   x seven [] 0 = (Return (Num 7), 2) \<and>
   w seven [] 0 = (Return (Num 7), 2) \<and>
   x borrowed_then [] 0 = (Return (Arr [TypeError_new 1, Null]), 2) \<and>
   w borrowed_then [] 0 = (Return (Arr [TypeError_new 1, Null]), 2) \<and>
   x borrowed_catch [] 0 = (Return (Arr [RangeError_new 1, Null]), 2) \<and>
   w borrowed_catch [] 0 = (Return (Arr [RangeError_new 1, Null]), 2)"
proof -
  have a: "return_zero [] 0 = (Return (Num 0), 0) \<and>
      \<not> (truthy (Num 0) \<and> typeof (get_prop (Num 0) ''then'') = ''function'')"
    by (simp add: return_zero_def)
  have b: "return_then_one [] 0 = (Return (Obj 0 ''Object'' [(''then'', Num 1)]), 1) \<and>
      \<not> (truthy (Obj 0 ''Object'' [(''then'', Num 1)]) \<and>
         typeof (get_prop (Obj 0 ''Object'' [(''then'', Num 1)]) ''then'') = ''function'')"
    by (simp add: return_then_one_def)
  have c: "async_five [] 0 = (Return (Promise fulfilled_five), 0)"
    by (simp add: async_five_def)
  have d: "throwing_thenable [] 0 = (Return (Obj 0 ''Object'' [(''then'', Fn throwing_then)]), 1) \<and>
      map_of [(''then'', Fn throwing_then)] ''then'' = Some (Fn throwing_then) \<and>
      throwing_then [Some ValueArrow] 1 = (Throw Null, 1)"
    by (simp add: throwing_thenable_def throwing_then_def)
  have e: "bare_thenable [] 0 = (Return (Obj 0 ''Object'' [(''then'', Fn bare_then)]), 1) \<and>
      map_of [(''then'', Fn bare_then)] ''then'' = Some (Fn bare_then) \<and>
      bare_then [Some ValueArrow] 1 = (Return Undefined, 1)"
    by (simp add: bare_thenable_def bare_then_def arg_def value_tuple_def)
  have f: "try_catch (call_method Undefined ''catch'' [Some FaultArrow]) fault_tuple 1 =
      (Return (Arr [TypeError_new 1, Null]), 2)"
    by (simp add: try_catch_def call_method_def fault_tuple_def TypeError_new_def)
  have g: "fault_tuple Null 1 = (Return (Arr [NullError_new 1, Null]), 2)"
    by (simp add: fault_tuple_null)
  have h: "seven [] 0 = (Return (Obj 0 ''Object'' [(''then'', Fn outer_then)]), 1) \<and>
      truthy (Obj 0 ''Object'' [(''then'', Fn outer_then)]) \<and>
      typeof (get_prop (Obj 0 ''Object'' [(''then'', Fn outer_then)]) ''then'') = ''function''"
    by (simp add: seven_def)
  have i: "try_catch (then_catch (Obj 0 ''Object'' [(''then'', Fn outer_then)])) fault_tuple 1 =
      (Return (Num 7), 2)"
    by (simp add: try_catch_def then_catch_def call_method_def invoke_then_def outer_then_def
        seven_or_eight_def arg_def)
  have j: "borrowed_then [] 0 = (Return (Obj 0 ''Object'' [(''then'', Builtin PromiseThen)]), 1) \<and>
      map_of [(''then'', Builtin PromiseThen)] ''then'' = Some (Builtin PromiseThen)"
    by (simp add: borrowed_then_def)
  have k: "borrowed_catch [] 0 = (Return (Obj 0 ''Object'' [(''then'', Builtin PromiseCatch)]), 1) \<and>
      map_of [(''then'', Builtin PromiseCatch)] ''then'' = Some (Builtin PromiseCatch)"
    by (simp add: borrowed_catch_def)
  show ?thesis
    using a b c d e f g h i j k
      pending_detection [where callback = return_zero and params = "[]" and s = 0
        and r = "Num 0" and ?s1.0 = 0]
      pending_detection [where callback = return_then_one and params = "[]" and s = 0
        and r = "Obj 0 ''Object'' [(''then'', Num 1)]" and ?s1.0 = 1]
      pending_detection [where callback = async_five and params = "[]" and s = 0
        and st = fulfilled_five and ?s1.0 = 0]
      pending_detection [where callback = throwing_thenable and params = "[]" and s = 0
        and a = 0 and c = "''Object''" and ps = "[(''then'', Fn throwing_then)]"
        and body = throwing_then and ?s1.0 = 1 and e = Null and ?s2.0 = 1]
      pending_detection [where callback = bare_thenable and params = "[]" and s = 0
        and a = 0 and c = "''Object''" and ps = "[(''then'', Fn bare_then)]"
        and body = bare_then and ?s1.0 = 1 and n = Undefined and ?s2.0 = 1]
      pending_detection [where callback = seven and params = "[]" and s = 0
        and r = "Obj 0 ''Object'' [(''then'', Fn outer_then)]" and ?s1.0 = 1]
      pending_detection [where callback = borrowed_then and params = "[]" and s = 0
        and a = 0 and c = "''Object''" and ps = "[(''then'', Builtin PromiseThen)]"
        and ?s1.0 = 1]
      pending_detection [where callback = borrowed_catch and params = "[]" and s = 0
        and a = 0 and c = "''Object''" and ps = "[(''then'', Builtin PromiseCatch)]"
        and ?s1.0 = 1]
    by simp
qed

end
